theory Spec2Isabelle
  imports Main
begin

section \<open>Strings as the source uses them\<close>

text \<open>
  The build command of \<^verbatim>\<open>src/commands/build.ts\<close> works on JavaScript strings: script ids,
  shell commands, disk paths and import specifiers. They are modelled as \<^typ>\<open>string\<close>,
  a character standing for a code unit up to U+00FF; the string methods the source calls
  are written out below with the results JavaScript gives.
\<close>

definition startsWith :: "string \<Rightarrow> string \<Rightarrow> bool" where
  \<comment> \<open>\<^verbatim>\<open>s.startsWith(p)\<close>, written \<open>startsWith p s\<close>\<close>
  "startsWith p s = (take (length p) s = p)"

definition endsWith :: "string \<Rightarrow> string \<Rightarrow> bool" where
  "endsWith p s = (length p \<le> length s \<and> drop (length s - length p) s = p)"

fun includes_str :: "string \<Rightarrow> string \<Rightarrow> bool" where
  \<comment> \<open>\<^verbatim>\<open>s.includes(p)\<close>, written \<open>includes_str p s\<close>: \<open>p\<close> occurs somewhere in \<open>s\<close>\<close>
  "includes_str p [] = (p = [])"
| "includes_str p (c # cs) = (startsWith p (c # cs) \<or> includes_str p cs)"

definition substr1 :: "string \<Rightarrow> string" where
  \<comment> \<open>\<^verbatim>\<open>s.substr(1)\<close>\<close>
  "substr1 s = drop 1 s"

fun split_on :: "char \<Rightarrow> string \<Rightarrow> string list" where
  \<comment> \<open>\<^verbatim>\<open>s.split(c)\<close> for a one-character separator: never empty, \<open>''''\<close> gives \<open>['''']\<close>\<close>
  "split_on c [] = [[]]"
| "split_on c (x # xs) =
     (if x = c then [] # split_on c xs
      else (case split_on c xs of [] \<Rightarrow> [[x]] | p # ps \<Rightarrow> (x # p) # ps))"

fun join_with :: "string \<Rightarrow> string list \<Rightarrow> string" where
  "join_with sep [] = []"
| "join_with sep [p] = p"
| "join_with sep (p # q # ps) = p @ sep @ join_with sep (q # ps)"

definition is_space :: "char \<Rightarrow> bool" where
  \<comment> \<open>the characters up to U+00FF of the regular expression class \<^verbatim>\<open>\s\<close>: tab, line feed,
      vertical tab, form feed, carriage return, space and the no-break space\<close>
  "is_space c = (c \<in> {CHR '' '', CHR 0x09, CHR 0x0A, CHR 0x0B, CHR 0x0C, CHR 0x0D, CHR 0xA0})"

fun split_ws_from :: "bool \<Rightarrow> string \<Rightarrow> string list" where
  \<comment> \<open>the flag says that the previous character was white space\<close>
  "split_ws_from _ [] = [[]]"
| "split_ws_from prev (x # xs) =
     (if is_space x then (if prev then split_ws_from True xs else [] # split_ws_from True xs)
      else (case split_ws_from False xs of [] \<Rightarrow> [[x]] | p # ps \<Rightarrow> (x # p) # ps))"

definition split_ws :: "string \<Rightarrow> string list" where
  \<comment> \<open>\<^verbatim>\<open>s.split(/\s+/)\<close>: leading or trailing white space leaves an empty first or last token\<close>
  "split_ws s = split_ws_from False s"

fun replace_first :: "string \<Rightarrow> string \<Rightarrow> string \<Rightarrow> string" where
  \<comment> \<open>\<^verbatim>\<open>s.replace(pat, rep)\<close> with a string pattern: the first occurrence only\<close>
  "replace_first pat rep [] = (if pat = [] then rep else [])"
| "replace_first pat rep (c # cs) =
     (if startsWith pat (c # cs) then rep @ drop (length pat) (c # cs)
      else c # replace_first pat rep cs)"

definition replace_suffix :: "string \<Rightarrow> string \<Rightarrow> string \<Rightarrow> string" where
  \<comment> \<open>\<^verbatim>\<open>s.replace(new RegExp(`${ext}$`), rep)\<close> for an extension \<open>ext\<close> of letters and digits:
      the pattern matches only at the end of \<open>s\<close>\<close>
  "replace_suffix ext rep s =
     (if endsWith ext s then take (length s - length ext) s @ rep else s)"

section \<open>Paths (Node's POSIX \<^verbatim>\<open>path\<close> module)\<close>

definition last_part :: "string \<Rightarrow> string" where
  \<comment> \<open>the last component of a path, trailing separators dropped\<close>
  "last_part p =
     rev (takeWhile (\<lambda>c. c \<noteq> CHR ''/'') (dropWhile (\<lambda>c. c = CHR ''/'') (rev p)))"

definition extname :: "string \<Rightarrow> string" where
  \<comment> \<open>\<^verbatim>\<open>path.extname(p)\<close>: from the last dot of the last component to its end; empty when
      there is no dot, when the only dot starts the component, and for \<^verbatim>\<open>..\<close>\<close>
  "extname p =
     (let b = last_part p;
          e = rev (takeWhile (\<lambda>c. c \<noteq> CHR ''.'') (rev b))
      in if CHR ''.'' \<in> set b \<and> Suc (length e) \<noteq> length b \<and> b \<noteq> ''..''
         then CHR ''.'' # e else [])"

definition dirname :: "string \<Rightarrow> string" where
  \<comment> \<open>\<^verbatim>\<open>path.dirname(p)\<close>\<close>
  "dirname p =
     (case p of
        [] \<Rightarrow> ''.''
      | c # cs \<Rightarrow>
          (let r = dropWhile (\<lambda>c. c \<noteq> CHR ''/'') (dropWhile (\<lambda>c. c = CHR ''/'') (rev cs))
           in if r = [] then (if c = CHR ''/'' then ''/'' else ''.'')
              else if c = CHR ''/'' \<and> length r = 1 then ''//''
              else take (length r) p))"

fun normalize_segs :: "string list \<Rightarrow> string list \<Rightarrow> string list" where
  \<comment> \<open>the first argument holds the segments kept so far, last one first\<close>
  "normalize_segs acc [] = rev acc"
| "normalize_segs acc (s # ss) =
     (if s = [] \<or> s = ''.'' then normalize_segs acc ss
      else if s = ''..'' then normalize_segs (tl acc) ss
      else normalize_segs (s # acc) ss)"

fun resolve_join :: "string list \<Rightarrow> string" where
  \<comment> \<open>the arguments from the last absolute one on, joined; empty arguments are skipped\<close>
  "resolve_join [] = []"
| "resolve_join (a # as) =
     (let r = resolve_join as
      in if startsWith ''/'' r then r else if a = [] then r else a @ ''/'' @ r)"

definition path_resolve :: "string \<Rightarrow> string list \<Rightarrow> string" where
  \<comment> \<open>\<^verbatim>\<open>path.resolve(...args)\<close> in the working directory \<open>cwd\<close>, an absolute path\<close>
  "path_resolve cwd args =
     CHR ''/'' # join_with ''/'' (normalize_segs [] (split_on CHR ''/'' (resolve_join (cwd # args))))"


section \<open>Data of the build\<close>

text \<open>
  The text of a file, as the import scanner sees it. The scanner itself
  (\<^verbatim>\<open>transformEsmImports\<close> of \<^verbatim>\<open>../rewrite-imports\<close>) is not part of the source at hand, so
  a text is given already cut into the specifiers of its import and export clauses and
  the text between them.
\<close>

datatype chunk = Code string | Spec string

type_synonym content = "chunk list"

fun render :: "content \<Rightarrow> string" where
  "render [] = []"
| "render (Code t # cs) = t @ render cs"
| "render (Spec s # cs) = s @ render cs"

datatype error =
    Error string \<comment> \<open>\<^verbatim>\<open>throw new Error(msg)\<close>\<close>
  | ReferenceError string \<comment> \<open>a \<^verbatim>\<open>const\<close> read before its declaration has run\<close>
  | TypeError string
  | ExecaError string \<comment> \<open>the promise of \<^verbatim>\<open>execa.command\<close> rejects: the process failed\<close>
  | ModuleNotFound string \<comment> \<open>\<^verbatim>\<open>require.resolve\<close> finds no module\<close>
  | PluginError string \<comment> \<open>the \<^verbatim>\<open>build\<close> operation of a plugin throws\<close>
  | ENOENT string \<comment> \<open>a file to read is not there\<close>

fun err_toString :: "error \<Rightarrow> string" where
  "err_toString (Error m) = ''Error: '' @ m"
| "err_toString (ReferenceError m) = ''ReferenceError: '' @ m"
| "err_toString (TypeError m) = ''TypeError: '' @ m"
| "err_toString (ExecaError m) = ''Error: '' @ m"
| "err_toString (ModuleNotFound m) = ''Error: Cannot find module '' @ m"
| "err_toString (PluginError m) = ''Error: '' @ m"
| "err_toString (ENOENT m) = ''Error: ENOENT: no such file or directory, open '' @ m"

datatype event =
    WORKER_UPDATE string "string list" \<comment> \<open>id and \<^verbatim>\<open>state\<close>, as \<^verbatim>\<open>['RUNNING', 'yellow']\<close>\<close>
  | WORKER_MSG string string string
  | WORKER_COMPLETE string "error option"
  | MISSING_WEB_MODULE string
  | CONSOLE string string

datatype node = Dir | File content

type_synonym filesystem = "(string \<times> node) list"

text \<open>The result of the external process of a build worker.\<close>

datatype exec_result =
    Exit_failure string \<comment> \<open>non-zero exit: \<^verbatim>\<open>execa.command\<close> rejects\<close>
  | Exit_ok content string \<comment> \<open>\<^verbatim>\<open>stdout\<close> and \<^verbatim>\<open>stderr\<close> of a process that exits with 0\<close>

text \<open>
  What the \<^verbatim>\<open>build\<close> operation of a plugin throws: an object that takes a \<^verbatim>\<open>message\<close> (an
  \<^verbatim>\<open>Error\<close>), or a primitive value such as a string or \<^verbatim>\<open>undefined\<close>.
\<close>

datatype thrown = ThrownError string | ThrownPrimitive

text \<open>
  What \<^verbatim>\<open>command({cwd, config})\<close> reads and does not change. The table
  \<^verbatim>\<open>srcFileExtensionMapping\<close> is imported from a file that is not at hand and is a parameter;
  its keys and values are taken to be made of letters and digits (see \<^const>\<open>replace_suffix\<close>).
  The two tables are given by their own entries. External processes and plugins are
  functions of the environment.
\<close>

record env =
  cwd :: string
  scripts :: "(string \<times> string) list" \<comment> \<open>\<^verbatim>\<open>Object.entries(config.scripts)\<close>: id and \<^verbatim>\<open>cmd\<close>\<close>
  devOptions_out :: string \<comment> \<open>\<^verbatim>\<open>config.devOptions.out\<close>\<close>
  devOptions_bundle :: "bool option" \<comment> \<open>\<^verbatim>\<open>config.devOptions.bundle\<close>, \<open>None\<close> for \<^verbatim>\<open>undefined\<close>\<close>
  has_parcel :: bool \<comment> \<open>\<^verbatim>\<open>require.resolve('parcel-bundler')\<close> succeeds\<close>
  excluded :: "string \<Rightarrow> bool" \<comment> \<open>the globs of \<^verbatim>\<open>config.exclude\<close>\<close>
  dependencyImportMap :: "string \<rightharpoonup> string" \<comment> \<open>\<^verbatim>\<open>dependencyImportMap.imports\<close>\<close>
  srcFileExtensionMapping :: "string \<rightharpoonup> string"
  execa_command :: "string \<Rightarrow> content \<Rightarrow> exec_result" \<comment> \<open>by command line and input\<close>
  plugin_build :: "string \<rightharpoonup> (string \<Rightarrow> thrown + content)"
    \<comment> \<open>by module name: \<open>None\<close> when \<^verbatim>\<open>require.resolve\<close> throws; \<open>Inl\<close> when \<^verbatim>\<open>build(f)\<close> throws\<close>
  wrapEsmProxyResponse :: "string \<Rightarrow> content \<Rightarrow> string \<Rightarrow> content"

text \<open>
  What the run changes: the file system, the events emitted on \<^verbatim>\<open>messageBus\<close> in order,
  and the two sets. A JavaScript \<^verbatim>\<open>Set\<close> is a list without repetition in insertion order.
  \<^verbatim>\<open>allProxiedFiles\<close> is declared by \<^verbatim>\<open>const\<close> on line 265, after the loop over the mounted
  directories: until that line has run the binding is not initialised (\<open>None\<close>), and
  reading it throws a \<^verbatim>\<open>ReferenceError\<close>. (Compiled to a \<^verbatim>\<open>var\<close>, the variable is \<^verbatim>\<open>undefined\<close>
  until then and the call of \<^verbatim>\<open>add\<close> throws a \<^verbatim>\<open>TypeError\<close>; the model has the first.)
\<close>

record state =
  files :: filesystem
  events :: "event list"
  allProxiedFiles :: "string list option"
  allBuiltFromFiles :: "string list"

definition set_add :: "string \<Rightarrow> string list \<Rightarrow> string list" where
  \<comment> \<open>\<^verbatim>\<open>Set.prototype.add\<close>\<close>
  "set_add x xs = (if x \<in> set xs then xs else xs @ [x])"

definition emit :: "event \<Rightarrow> state \<Rightarrow> state" where
  "emit e st = st\<lparr>events := events st @ [e]\<rparr>"

definition isBundled :: "env \<Rightarrow> bool" where
  \<comment> \<open>lines 42 to 51\<close>
  "isBundled env = (case devOptions_bundle env of Some b \<Rightarrow> b | None \<Rightarrow> has_parcel env)"

definition buildDirectoryLoc :: "env \<Rightarrow> string" where
  \<comment> \<open>line 53; \<^verbatim>\<open>path.join(cwd, '.build')\<close> for a working directory in normal form\<close>
  "buildDirectoryLoc env = (if isBundled env then path_resolve (cwd env) [''.build''] else devOptions_out env)"

definition finalDirectoryLoc :: "env \<Rightarrow> string" where
  "finalDirectoryLoc env = devOptions_out env"

section \<open>Reading a table\<close>

text \<open>
  Both tables are plain JavaScript objects, and \<^verbatim>\<open>table[key]\<close> finds the entry of the table
  or, when the table has none, the member of that name that every object inherits from
  \<^verbatim>\<open>Object.prototype\<close>. The inherited members are functions, but for \<^verbatim>\<open>__proto__\<close>, which is
  the prototype object itself; none of them is a string, and all of them count as true.
\<close>

definition object_prototype_members :: "string list" where
  "object_prototype_members =
     [''constructor'', ''__defineGetter__'', ''__defineSetter__'', ''hasOwnProperty'',
      ''__lookupGetter__'', ''__lookupSetter__'', ''isPrototypeOf'', ''propertyIsEnumerable'',
      ''toString'', ''valueOf'', ''__proto__'', ''toLocaleString'']"

definition is_inherited :: "string \<Rightarrow> bool" where
  "is_inherited k = (k \<in> set object_prototype_members)"

datatype jsvalue = Undefined | Str string | Inherited string

definition js_get :: "(string \<rightharpoonup> string) \<Rightarrow> string \<Rightarrow> jsvalue" where
  \<comment> \<open>\<^verbatim>\<open>table[key]\<close>\<close>
  "js_get table k =
     (case table k of
        Some v \<Rightarrow> Str v
      | None \<Rightarrow> if is_inherited k then Inherited k else Undefined)"

definition js_truthy :: "jsvalue \<Rightarrow> bool" where
  \<comment> \<open>a value as a condition: \<^verbatim>\<open>undefined\<close> and the empty string count as false\<close>
  "js_truthy v = (case v of Undefined \<Rightarrow> False | Str s \<Rightarrow> s \<noteq> [] | Inherited k \<Rightarrow> True)"

definition inherited_replacement :: "string \<Rightarrow> string \<Rightarrow> error + string" where
  \<comment> \<open>what \<^verbatim>\<open>replace\<close> puts for the matched text when it is given the inherited member \<open>k\<close>:
      the prototype object is not a function and is taken as the text
      \<^verbatim>\<open>[object Object]\<close>; a function is called with the matched text, \<^verbatim>\<open>this\<close> being
      \<^verbatim>\<open>undefined\<close>, and the members not listed here throw on that\<close>
  "inherited_replacement k matched =
     (if k = ''__proto__'' then Inr ''[object Object]''
      else if k = ''constructor'' then Inr matched
      else if k = ''toString'' then Inr ''[object Undefined]''
      else if k = ''isPrototypeOf'' then Inr ''false''
      else Inl (TypeError ''Cannot convert undefined or null to object''))"

definition replace_ext :: "string \<Rightarrow> jsvalue \<Rightarrow> string \<Rightarrow> error + string" where
  \<comment> \<open>\<^verbatim>\<open>s.replace(new RegExp(`${ext}$`), extToReplace)\<close>, lines 238, 298, 313, 348 and 363\<close>
  "replace_ext ext extToReplace s =
     (case extToReplace of
        Undefined \<Rightarrow> Inr s
      | Str r \<Rightarrow> Inr (replace_suffix ext r s)
      | Inherited k \<Rightarrow>
          if endsWith ext s
          then (case inherited_replacement k ext of
                  Inl e \<Rightarrow> Inl e
                | Inr t \<Rightarrow> Inr (take (length s - length ext) s @ t))
          else Inr s)"

definition not_js :: "jsvalue \<Rightarrow> string \<Rightarrow> bool" where
  \<comment> \<open>\<^verbatim>\<open>(extToReplace || ext) !== 'js'\<close>\<close>
  "not_js extToReplace ext =
     (case extToReplace of
        Undefined \<Rightarrow> ext \<noteq> ''js''
      | Str r \<Rightarrow> (if r = [] then ext else r) \<noteq> ''js''
      | Inherited k \<Rightarrow> True)"

section \<open>The import rewriter\<close>

text \<open>
  The callback given to \<^verbatim>\<open>transformEsmImports\<close> is written three times in the source: for a
  script of a mounted directory (lines 227 to 252), for the output of a build worker
  (lines 302 to 327) and for the output of a plugin worker (lines 352 to 377). The three
  differ in one condition only, the one that decides on a proxy.
\<close>

datatype pass = MountPass | BuildPass | PluginPass

definition proxy_guard :: "pass \<Rightarrow> env \<Rightarrow> bool" where
  "proxy_guard p env =
     (case p of
        MountPass \<Rightarrow> \<not> isBundled env \<comment> \<open>line 240\<close>
      | BuildPass \<Rightarrow> \<not> isBundled env \<comment> \<open>line 315\<close>
      | PluginPass \<Rightarrow> True \<comment> \<open>line 365\<close>)"

definition is_relative :: "string \<Rightarrow> bool" where
  "is_relative spec = (startsWith ''/'' spec \<or> startsWith ''./'' spec \<or> startsWith ''../'' spec)"

definition rewriteImport ::
  "pass \<Rightarrow> env \<Rightarrow> string \<Rightarrow> string \<Rightarrow> state \<Rightarrow> (error + string) \<times> state" where
  "rewriteImport p env outPath spec st =
     (if startsWith ''http'' spec then (Inr spec, st)
      else if is_relative spec then
        (let ext = substr1 (extname spec)
         in if ext = [] then (Inr (spec @ ''.js''), st)
            else
              (let extToReplace = js_get (srcFileExtensionMapping env) ext
               in case (if js_truthy extToReplace then replace_ext ext extToReplace spec
                        else Inr spec) of
                    Inl e \<Rightarrow> (Inl e, st)
                  | Inr spec1 \<Rightarrow>
                      if proxy_guard p env \<and> not_js extToReplace ext
                      then
                        (let resolvedUrl = path_resolve (cwd env) [dirname outPath, spec1]
                         in case allProxiedFiles st of
                              None \<Rightarrow> (Inl (ReferenceError ''allProxiedFiles''), st)
                            | Some proxied \<Rightarrow>
                                (Inr (spec1 @ ''.proxy.js''),
                                 st\<lparr>allProxiedFiles := Some (set_add resolvedUrl proxied)\<rparr>))
                      else (Inr spec1, st)))
      else
        (let target = js_get (dependencyImportMap env) spec
         in if js_truthy target then
              (case target of
                 Str t \<Rightarrow> (Inr (path_resolve (cwd env) [''/web_modules'', t]), st)
               | _ \<Rightarrow> (Inl (TypeError ''path''), st))
            else (Inr (''/web_modules/'' @ spec @ ''.js''), emit (MISSING_WEB_MODULE spec) st)))"

text \<open>
  Modelled from the spec: \<^verbatim>\<open>transformEsmImports\<close> (\<^verbatim>\<open>../rewrite-imports\<close> is not at hand)
  "finds every import/export from specifier and rewrites it", in the order of the text,
  and "must not alter string literals or code outside the detected import/export
  clauses". An error thrown by the callback ends the transformation; what the
  callback did before stays done.
\<close>

fun transformEsmImports ::
  "content \<Rightarrow> (string \<Rightarrow> state \<Rightarrow> (error + string) \<times> state) \<Rightarrow> state
     \<Rightarrow> (error + content) \<times> state" where
  "transformEsmImports [] cb st = (Inr [], st)"
| "transformEsmImports (Code t # cs) cb st =
     (case transformEsmImports cs cb st of
        (Inl e, st') \<Rightarrow> (Inl e, st')
      | (Inr cs', st') \<Rightarrow> (Inr (Code t # cs'), st'))"
| "transformEsmImports (Spec s # cs) cb st =
     (case cb s st of
        (Inl e, st') \<Rightarrow> (Inl e, st')
      | (Inr s', st') \<Rightarrow>
          (case transformEsmImports cs cb st' of
             (Inl e, st'') \<Rightarrow> (Inl e, st'')
           | (Inr cs', st'') \<Rightarrow> (Inr (Spec s' # cs'), st'')))"




section \<open>The file system\<close>

text \<open>
  A file system is the list of its entries by absolute path in normal form. Its
  operations succeed, but for reading a file that is not there. The paths that the run
  reads and writes come from \<^verbatim>\<open>path.resolve\<close> and are in normal form; the directories of
  lines 83 to 88 come from the configuration and are resolved first, as the file system
  does, the working directory of the process being \<^verbatim>\<open>cwd\<close>.
\<close>

definition is_below :: "string \<Rightarrow> string \<Rightarrow> bool" where
  \<comment> \<open>path \<open>p\<close> lies below directory \<open>d\<close>\<close>
  "is_below d p =
     (if d = ''/'' then p \<noteq> ''/'' \<and> startsWith ''/'' p else startsWith (d @ ''/'') p)"

definition rimraf :: "string \<Rightarrow> string \<Rightarrow> filesystem \<Rightarrow> filesystem" where
  \<comment> \<open>\<^verbatim>\<open>rimraf.sync(dir)\<close> in the working directory \<open>c\<close>, for a name without pattern
      characters (a name with such characters that names nothing is read as a pattern)\<close>
  "rimraf c dir fs =
     (let d = path_resolve c [dir]
      in filter (\<lambda>(p, n). p \<noteq> d \<and> \<not> is_below d p) fs)"

definition dir_chain :: "string \<Rightarrow> string list" where
  \<comment> \<open>a directory and the directories above it, from the top, the root left out\<close>
  "dir_chain d =
     (let segs = filter (\<lambda>s. s \<noteq> []) (split_on CHR ''/'' d)
      in map (\<lambda>k. CHR ''/'' # join_with ''/'' (take k segs)) [1 ..< Suc (length segs)])"

definition mkdirp :: "string \<Rightarrow> string \<Rightarrow> filesystem \<Rightarrow> filesystem" where
  \<comment> \<open>\<^verbatim>\<open>mkdirp.sync(dir)\<close> and \<^verbatim>\<open>fs.mkdir(dir, {recursive: true})\<close> in the working directory \<open>c\<close>\<close>
  "mkdirp c dir fs =
     fold (\<lambda>p fs. if map_of fs p = None then fs @ [(p, Dir)] else fs)
       (dir_chain (path_resolve c [dir])) fs"


fun fs_put :: "string \<Rightarrow> node \<Rightarrow> filesystem \<Rightarrow> filesystem" where
  "fs_put p n [] = [(p, n)]"
| "fs_put p n ((q, m) # fs) = (if q = p then (p, n) # fs else (q, m) # fs_put p n fs)"

definition readFile :: "string \<Rightarrow> filesystem \<Rightarrow> content option" where
  "readFile p fs = (case map_of fs p of Some (File c) \<Rightarrow> Some c | _ \<Rightarrow> None)"

definition writeFile :: "string \<Rightarrow> content \<Rightarrow> state \<Rightarrow> state" where
  "writeFile p c st = st\<lparr>files := fs_put p (File c) (files st)\<rparr>"

definition glob_sync :: "env \<Rightarrow> string \<Rightarrow> filesystem \<Rightarrow> string list" where
  \<comment> \<open>line 205: the files below \<open>dirDisk\<close> that \<^verbatim>\<open>config.exclude\<close> does not exclude\<close>
  "glob_sync env dirDisk fs =
     map fst (filter (\<lambda>(p, n). n \<noteq> Dir \<and> is_below dirDisk p \<and> \<not> excluded env p) fs)"

section \<open>Workers and mounted directories\<close>

definition is_build_or_plugin :: "string \<Rightarrow> bool" where
  "is_build_or_plugin wid = (startsWith ''build:'' wid \<or> startsWith ''plugin:'' wid)"

definition relevantWorkers :: "env \<Rightarrow> (string \<times> string) list" where
  \<comment> \<open>lines 91 to 99 and 109\<close>
  "relevantWorkers env =
     filter (\<lambda>(wid, cmd). startsWith ''build:'' wid \<or> startsWith ''plugin:'' wid
                          \<or> startsWith ''lintall:'' wid \<or> startsWith ''mount:'' wid)
       (scripts env)
     @ [(''bundle:*'', ''NA'')]"

definition worker_exts :: "string \<Rightarrow> string list" where
  \<comment> \<open>line 101, \<^verbatim>\<open>id.split(':')[1].split(',')\<close>; an id with a colon has a second part\<close>
  "worker_exts wid = (case split_on CHR '':'' wid of _ # x # _ \<Rightarrow> split_on CHR '','' x | _ \<Rightarrow> [])"

definition allBuildExtensions :: "env \<Rightarrow> string list" where
  \<comment> \<open>lines 100 to 106\<close>
  "allBuildExtensions env =
     concat (map (\<lambda>(wid, cmd). if is_build_or_plugin wid then worker_exts wid else []) (scripts env))"

text \<open>
  The value of the flag \<^verbatim>\<open>to\<close> that \<^verbatim>\<open>yargs-parser\<close> reads from the tokens of a mount
  command. Of that library what the mount grammar \<^verbatim>\<open>dir [--to destSubpath]\<close> needs is
  modelled: \<^verbatim>\<open>--to value\<close>, \<^verbatim>\<open>--to=value\<close> and \<^verbatim>\<open>--no-to\<close>. A value that looks like a number is
  read as a number: a hexadecimal numeral, or a decimal numeral with an optional sign,
  fraction and exponent that does not start with a zero followed by more. (The library
  keeps such a value as a string when the number is not a safe integer, that is above
  \<open>2\<^sup>5\<^sup>3 - 1\<close> or with a fraction lost in the conversion; that condition is not modelled,
  and neither are keys with dots, other spellings of the flag and the token \<^verbatim>\<open>--\<close>.) A
  number, a flag without value and a flag given twice do not yield a string.
\<close>

datatype yarg = YUndefined | YString string | YOther

definition is_digit :: "char \<Rightarrow> bool" where
  "is_digit c = (c \<in> set ''0123456789'')"

definition is_hex_digit :: "char \<Rightarrow> bool" where
  "is_hex_digit c = (c \<in> set ''0123456789abcdefABCDEF'')"

definition hex_numeral :: "string \<Rightarrow> bool" where
  \<comment> \<open>\<^verbatim>\<open>/^0x[0-9a-f]+$/i\<close>\<close>
  "hex_numeral v =
     (case v of
        z # x # ds \<Rightarrow>
          z = CHR ''0'' \<and> (x = CHR ''x'' \<or> x = CHR ''X'') \<and> ds \<noteq> [] \<and> list_all is_hex_digit ds
      | _ \<Rightarrow> False)"

definition mantissa :: "string \<Rightarrow> bool" where
  \<comment> \<open>\<^verbatim>\<open>\d+(?:\.\d*)?|\.\d+\<close>\<close>
  "mantissa m =
     (let i = takeWhile is_digit m
      in case dropWhile is_digit m of
           [] \<Rightarrow> i \<noteq> []
         | c # ds \<Rightarrow> c = CHR ''.'' \<and> list_all is_digit ds \<and> (i \<noteq> [] \<or> ds \<noteq> []))"

definition exponent :: "string \<Rightarrow> bool" where
  \<comment> \<open>\<^verbatim>\<open>(e[-+]?\d+)?\<close>, given the text from the first \<^verbatim>\<open>e\<close> on\<close>
  "exponent e =
     (case e of
        [] \<Rightarrow> True
      | _ # r \<Rightarrow>
          (let ds = (case r of
                       [] \<Rightarrow> []
                     | c # r' \<Rightarrow> if c = CHR ''-'' \<or> c = CHR ''+'' then r' else r)
           in ds \<noteq> [] \<and> list_all is_digit ds))"

definition decimal_numeral :: "string \<Rightarrow> bool" where
  \<comment> \<open>\<^verbatim>\<open>/^[-]?(?:\d+(?:\.\d*)?|\.\d+)(e[-+]?\d+)?$/\<close>\<close>
  "decimal_numeral v =
     (let u = (case v of [] \<Rightarrow> [] | c # r \<Rightarrow> if c = CHR ''-'' then r else v)
      in mantissa (takeWhile (\<lambda>c. c \<noteq> CHR ''e'') u)
         \<and> exponent (dropWhile (\<lambda>c. c \<noteq> CHR ''e'') u))"

definition looksLikeNumber :: "string \<Rightarrow> bool" where
  "looksLikeNumber v =
     (hex_numeral v \<or> (\<not> (1 < length v \<and> hd v = CHR ''0'') \<and> decimal_numeral v))"

definition yargs_value :: "string \<Rightarrow> yarg" where
  "yargs_value v = (if looksLikeNumber v then YOther else YString v)"

definition yargs_set :: "yarg \<Rightarrow> yarg \<Rightarrow> yarg" where
  \<comment> \<open>a second value for the same flag makes an array\<close>
  "yargs_set old new = (if old = YUndefined then new else YOther)"

definition negative_number :: "string \<Rightarrow> bool" where
  \<comment> \<open>\<^verbatim>\<open>/^-([0-9]+(\.[0-9]+)?|\.[0-9]+)$/\<close>: a token with a dash that is taken as a value\<close>
  "negative_number b =
     (case b of
        [] \<Rightarrow> False
      | c # m \<Rightarrow>
          c = CHR ''-'' \<and>
          (let i = takeWhile is_digit m
           in case dropWhile is_digit m of
                [] \<Rightarrow> i \<noteq> []
              | d # ds \<Rightarrow> d = CHR ''.'' \<and> ds \<noteq> [] \<and> list_all is_digit ds))"

fun yargs_to :: "yarg \<Rightarrow> string list \<Rightarrow> yarg" where
  "yargs_to acc [] = acc"
| "yargs_to acc [a] =
     (if a = ''--to'' \<or> a = ''--no-to'' then yargs_set acc YOther
      else if startsWith ''--to='' a then yargs_set acc (yargs_value (drop 5 a))
      else acc)"
| "yargs_to acc (a # b # rest) =
     (if a = ''--to'' then
        (if startsWith ''-'' b \<and> \<not> negative_number b then yargs_to (yargs_set acc YOther) (b # rest)
         else yargs_to (yargs_set acc (yargs_value b)) rest)
      else if a = ''--no-to'' then yargs_to (yargs_set acc YOther) (b # rest)
      else if startsWith ''--to='' a then yargs_to (yargs_set acc (yargs_value (drop 5 a))) (b # rest)
      else yargs_to acc (b # rest))"

definition mount_error :: "string \<Rightarrow> error" where
  "mount_error wid = Error (''script['' @ wid @ ''] must use the mount command'')"

fun mountedDirectories :: "env \<Rightarrow> (string \<times> string) list \<Rightarrow> error + (string \<times> yarg) list" where
  \<comment> \<open>lines 62 to 81, over \<^verbatim>\<open>allRegisteredWorkers\<close>; \<^verbatim>\<open>path.resolve\<close> throws on \<^verbatim>\<open>undefined\<close>\<close>
  "mountedDirectories env [] = Inr []"
| "mountedDirectories env ((wid, cmd) # ws) =
     (if \<not> startsWith ''mount:'' wid then mountedDirectories env ws
      else
        (case split_ws cmd of
           [] \<Rightarrow> Inl (mount_error wid)
         | t # cmdArr \<Rightarrow>
             if t \<noteq> ''mount'' then Inl (mount_error wid)
             else
               (case cmdArr of
                  [] \<Rightarrow> Inl (TypeError ''path'')
                | d # others \<Rightarrow>
                    (let dirDisk = path_resolve (cwd env) [d];
                         dirUrl = (if others = [] then YString d else yargs_to YUndefined cmdArr)
                     in case mountedDirectories env ws of
                          Inl e \<Rightarrow> Inl e
                        | Inr r \<Rightarrow> Inr ((dirDisk, dirUrl) # r)))))"

fun mountDirDetails ::
  "env \<Rightarrow> (string \<times> string) list \<Rightarrow> error + (string \<times> string \<times> string) list" where
  \<comment> \<open>lines 178 to 198, over \<^verbatim>\<open>relevantWorkers\<close>: id, \<^verbatim>\<open>dirDisk\<close> and \<^verbatim>\<open>dirDest\<close>\<close>
  "mountDirDetails env [] = Inr []"
| "mountDirDetails env ((wid, cmd) # ws) =
     (if \<not> startsWith ''mount:'' wid then mountDirDetails env ws
      else
        (case split_ws cmd of
           [] \<Rightarrow> Inl (mount_error wid)
         | t # cmdArr \<Rightarrow>
             if t \<noteq> ''mount'' then Inl (mount_error wid)
             else
               (case cmdArr of
                  [] \<Rightarrow> Inl (TypeError ''path'')
                | d # others \<Rightarrow>
                    (let dirDisk = path_resolve (cwd env) [d]
                     in case (if others = [] then YString d else yargs_to YUndefined cmdArr) of
                          YString to \<Rightarrow>
                            (let dirDest = path_resolve (cwd env) [buildDirectoryLoc env, to]
                             in case mountDirDetails env ws of
                                  Inl e \<Rightarrow> Inl e
                                | Inr r \<Rightarrow> Inr ((wid, dirDisk, dirDest) # r))
                        | _ \<Rightarrow> Inl (TypeError ''path'')))))"

section \<open>The pass over the mounted directories\<close>

text \<open>
  Lines 200 to 262. Each file of a mounted directory gets a task. The tasks are started
  one after the other, and each runs at once up to its first file operation: a file for
  a worker is noted, and for any other file the directory of its copy is made
  (\<open>mount_file_start\<close>). The file operations then go on while the command waits for all
  of them (\<^verbatim>\<open>Promise.all\<close>). Here they end in the order of the enumeration
  (\<open>mount_file_task\<close>). When one fails, the command stops waiting: line 258 catches the
  error and the command goes on, while the tasks that have not ended are left running.
  They are kept as outstanding tasks, and they end, their errors seen by nobody, at the
  next point where the command waits for a file operation or a process, or else when
  the command has ended.
\<close>

definition needs_build :: "env \<Rightarrow> string \<Rightarrow> bool" where
  \<comment> \<open>line 216\<close>
  "needs_build env f = (substr1 (extname f) \<in> set (allBuildExtensions env))"

definition mount_file_start :: "env \<Rightarrow> string \<Rightarrow> string \<Rightarrow> string \<Rightarrow> state \<Rightarrow> state" where
  \<comment> \<open>lines 215 to 221, for a file \<open>f\<close> that line 215 has resolved\<close>
  "mount_file_start env dirDisk dirDest f st =
     (if needs_build env f then st
      else st\<lparr>files := mkdirp (cwd env) (dirname (replace_first dirDisk dirDest f)) (files st)\<rparr>)"

definition mount_file_task :: "env \<Rightarrow> string \<times> string \<times> string \<Rightarrow> state \<Rightarrow> error option \<times> state" where
  \<comment> \<open>lines 222 to 253, for a file that no worker builds\<close>
  "mount_file_task env t st =
     (case t of
        (dirDisk, dirDest, f) \<Rightarrow>
          (let outPath = replace_first dirDisk dirDest f
           in case readFile f (files st) of
                None \<Rightarrow> (Some (ENOENT f), st)
              | Some code \<Rightarrow>
                  if extname f \<noteq> ''.js'' then (None, writeFile outPath code st)
                  else
                    (case transformEsmImports code (rewriteImport MountPass env outPath) st of
                       (Inl e, st1) \<Rightarrow> (Some e, st1)
                     | (Inr code', st1) \<Rightarrow> (None, writeFile outPath code' st1))))"

type_synonym task = "string \<times> string \<times> string"

fun run_tasks :: "env \<Rightarrow> task list \<Rightarrow> state \<Rightarrow> error option \<times> task list \<times> state" where
  \<comment> \<open>the tasks end in order up to the first failure; the other tasks are left\<close>
  "run_tasks env [] st = (None, [], st)"
| "run_tasks env (t # ts) st =
     (case mount_file_task env t st of
        (Some e, st') \<Rightarrow> (Some e, ts, st')
      | (None, st') \<Rightarrow> run_tasks env ts st')"

definition run_pending :: "env \<Rightarrow> task list \<Rightarrow> state \<Rightarrow> state" where
  \<comment> \<open>outstanding tasks end; nobody sees their errors\<close>
  "run_pending env ts st = fold (\<lambda>t st'. snd (mount_file_task env t st')) ts st"

type_synonym file_set = "string \<times> string \<times> string list"

definition mount_directory ::
  "env \<Rightarrow> string \<times> string \<times> string \<Rightarrow> file_set list \<times> task list \<times> state
     \<Rightarrow> file_set list \<times> task list \<times> state" where
  \<comment> \<open>lines 201 to 262, one round of the loop. The command waits for file operations
      when the directory has a file that no worker builds.\<close>
  "mount_directory env m acc =
     (case m of
        (wid, dirDisk, dirDest) \<Rightarrow>
          (case acc of
             (includeFileSets, pending, st) \<Rightarrow>
               (let st1 = emit (WORKER_UPDATE wid [''RUNNING'', ''yellow'']) st;
                    allFiles = map (\<lambda>f. path_resolve (cwd env) [f]) (glob_sync env dirDisk (files st1));
                    st2 = fold (mount_file_start env dirDisk dirDest) allFiles st1;
                    allBuildNeededFiles = filter (needs_build env) allFiles;
                    tasks = map (\<lambda>f. (dirDisk, dirDest, f)) (filter (\<lambda>f. \<not> needs_build env f) allFiles)
                in if tasks = []
                   then (includeFileSets @ [(dirDisk, dirDest, allBuildNeededFiles)], pending,
                         emit (WORKER_COMPLETE wid None) st2)
                   else
                     (case run_tasks env tasks (run_pending env pending st2) of
                        (None, left, st3) \<Rightarrow>
                          (includeFileSets @ [(dirDisk, dirDest, allBuildNeededFiles)], left,
                           emit (WORKER_COMPLETE wid None) st3)
                      | (Some err, left, st3) \<Rightarrow>
                          (includeFileSets, left,
                           emit (WORKER_COMPLETE wid (Some err))
                             (emit (WORKER_MSG wid ''error'' (err_toString err)) st3))))))"

definition mount_pass ::
  "env \<Rightarrow> (string \<times> string \<times> string) list \<Rightarrow> state \<Rightarrow> file_set list \<times> task list \<times> state" where
  "mount_pass env mounts st = fold (mount_directory env) mounts ([], [], st)"

section \<open>The pass of the build and plugin workers\<close>

text \<open>
  Lines 266 to 385. The files are handled one after the other; an error that is not
  caught leaves \<^verbatim>\<open>command\<close> and ends the run. The pass works on the state together with
  the tasks of the mounted directories that are still outstanding: they end when the
  command first waits, for the process of a build worker or for a plugin.
\<close>

type_synonym run = "task list \<times> state"

definition wait :: "env \<Rightarrow> run \<Rightarrow> state" where
  \<comment> \<open>the command waits: the outstanding tasks end\<close>
  "wait env r = (case r of (pending, st) \<Rightarrow> run_pending env pending st)"

fun seq_tasks ::
  "('a \<Rightarrow> 's \<Rightarrow> error option \<times> 's) \<Rightarrow> 'a list \<Rightarrow> 's \<Rightarrow> error option \<times> 's" where
  "seq_tasks task [] st = (None, st)"
| "seq_tasks task (x # xs) st =
     (case task x st of
        (Some e, st') \<Rightarrow> (Some e, st')
      | (None, st') \<Rightarrow> seq_tasks task xs st')"

definition worker_matches :: "string \<Rightarrow> string \<Rightarrow> bool" where
  \<comment> \<open>lines 273 to 276: the file is not skipped\<close>
  "worker_matches wid f =
     (let fileExtension = substr1 (extname f)
      in \<not> (\<not> includes_str ('':'' @ fileExtension) wid \<and> \<not> includes_str ('','' @ fileExtension) wid))"

definition out_path :: "env \<Rightarrow> string \<Rightarrow> string \<Rightarrow> string \<Rightarrow> error + string" where
  \<comment> \<open>lines 294 to 299 and 344 to 349\<close>
  "out_path env dirDisk dirDest f =
     (let outPath = replace_first dirDisk dirDest f;
          extToFind = substr1 (extname f);
          extToReplace = js_get (srcFileExtensionMapping env) extToFind
      in if js_truthy extToReplace then replace_ext extToFind extToReplace outPath
         else Inr outPath)"

definition write_output :: "pass \<Rightarrow> env \<Rightarrow> string \<Rightarrow> content \<Rightarrow> state \<Rightarrow> error option \<times> state" where
  \<comment> \<open>lines 300 to 330 and 350 to 380\<close>
  "write_output p env outPath code st =
     (case (if extname outPath = ''.js''
            then transformEsmImports code (rewriteImport p env outPath) st
            else (Inr code, st)) of
        (Inl e, st1) \<Rightarrow> (Some e, st1)
      | (Inr code', st1) \<Rightarrow>
          (None, writeFile outPath code'
                   (st1\<lparr>files := mkdirp (cwd env) (dirname outPath) (files st1)\<rparr>)))"

definition build_file ::
  "env \<Rightarrow> string \<Rightarrow> string \<Rightarrow> string \<Rightarrow> string \<Rightarrow> string \<Rightarrow> state \<Rightarrow> error option \<times> state" where
  \<comment> \<open>lines 279 to 332, from the point where the command waits for the process\<close>
  "build_file env wid cmd dirDisk dirDest f st =
     (case readFile f (files st) of
        None \<Rightarrow> (Some (ENOENT f), st)
      | Some input \<Rightarrow>
          (case execa_command env (replace_first ''$FILE'' f cmd) input of
             Exit_failure msg \<Rightarrow> (Some (ExecaError msg), st)
           | Exit_ok stdout stderr \<Rightarrow>
               (let st1 = (if stderr \<noteq> [] then emit (CONSOLE ''error'' stderr) st else st)
                in if render stdout = [] then (None, st1)
                   else
                     (case out_path env dirDisk dirDest f of
                        Inl e \<Rightarrow> (Some e, st1)
                      | Inr outPath \<Rightarrow>
                          (case write_output BuildPass env outPath stdout st1 of
                             (Some e, st2) \<Rightarrow> (Some e, st2)
                           | (None, st2) \<Rightarrow>
                               (None, st2\<lparr>allBuiltFromFiles := set_add f (allBuiltFromFiles st2)\<rparr>))))))"

definition plugin_file ::
  "env \<Rightarrow> string \<Rightarrow> (string \<Rightarrow> thrown + content) \<Rightarrow> string \<Rightarrow> string \<Rightarrow> string \<Rightarrow> state
     \<Rightarrow> error option \<times> state" where
  \<comment> \<open>lines 335 to 381, from the point where the command waits for the plugin. Line 339
      assigns to \<^verbatim>\<open>err.message\<close>: when what was thrown is a primitive value, the assignment
      throws a \<^verbatim>\<open>TypeError\<close> (the code of a module is strict), which nothing catches.\<close>
  "plugin_file env wid build dirDisk dirDest f st =
     (case build f of
        Inl (ThrownError msg) \<Rightarrow>
          (let err = PluginError (''['' @ wid @ ''] '' @ msg)
           in (None, emit (WORKER_COMPLETE wid (Some err))
                       (emit (CONSOLE ''error'' (err_toString err)) st)))
      | Inl ThrownPrimitive \<Rightarrow> (Some (TypeError ''message''), st)
      | Inr result \<Rightarrow>
          (case out_path env dirDisk dirDest f of
             Inl e \<Rightarrow> (Some e, st)
           | Inr outPath \<Rightarrow> write_output PluginPass env outPath result st))"

definition worker_file ::
  "env \<Rightarrow> string \<Rightarrow> string \<Rightarrow> string \<Rightarrow> string \<Rightarrow> string \<Rightarrow> run \<Rightarrow> error option \<times> run" where
  \<comment> \<open>lines 272 to 382, one round of the innermost loop\<close>
  "worker_file env wid cmd dirDisk dirDest f r =
     (if \<not> worker_matches wid f then (None, r)
      else if startsWith ''build:'' wid then
        (case build_file env wid cmd dirDisk dirDest f (wait env r) of
           (e, st) \<Rightarrow> (e, ([], st)))
      else if startsWith ''plugin:'' wid then
        (case plugin_build env cmd of
           None \<Rightarrow> (Some (ModuleNotFound cmd), r) \<comment> \<open>line 334\<close>
         | Some build \<Rightarrow>
             (case plugin_file env wid build dirDisk dirDest f (wait env r) of
                (e, st) \<Rightarrow> (e, ([], st))))
      else (None, r))"

definition worker_file_set ::
  "env \<Rightarrow> string \<Rightarrow> string \<Rightarrow> file_set \<Rightarrow> run \<Rightarrow> error option \<times> run" where
  "worker_file_set env wid cmd fset r =
     (case fset of
        (dirDisk, dirDest, allFiles) \<Rightarrow> seq_tasks (worker_file env wid cmd dirDisk dirDest) allFiles r)"

definition on_state :: "(state \<Rightarrow> state) \<Rightarrow> run \<Rightarrow> run" where
  "on_state g r = (case r of (pending, st) \<Rightarrow> (pending, g st))"

definition run_worker ::
  "env \<Rightarrow> file_set list \<Rightarrow> string \<times> string \<Rightarrow> run \<Rightarrow> error option \<times> run" where
  \<comment> \<open>lines 266 to 385, one round of the outer loop\<close>
  "run_worker env includeFileSets w r =
     (case w of
        (wid, cmd) \<Rightarrow>
          if \<not> startsWith ''build:'' wid \<and> \<not> startsWith ''plugin:'' wid then (None, r)
          else
            (case seq_tasks (worker_file_set env wid cmd) includeFileSets
                    (on_state (emit (WORKER_UPDATE wid [''RUNNING'', ''yellow''])) r) of
               (Some e, r1) \<Rightarrow> (Some e, r1)
             | (None, r1) \<Rightarrow> (None, on_state (emit (WORKER_COMPLETE wid None)) r1)))"

definition worker_pass :: "env \<Rightarrow> file_set list \<Rightarrow> run \<Rightarrow> error option \<times> run" where
  \<comment> \<open>lines 264 to 385: the two sets are made, then the workers run\<close>
  "worker_pass env includeFileSets r =
     seq_tasks (run_worker env includeFileSets) (relevantWorkers env)
       (on_state (\<lambda>st. st\<lparr>allProxiedFiles := Some [], allBuiltFromFiles := []\<rparr>) r)"

section \<open>Proxies and the copy for the bundler\<close>

definition write_proxy :: "env \<Rightarrow> string \<Rightarrow> state \<Rightarrow> error option \<times> state" where
  \<comment> \<open>lines 389 to 396, one round\<close>
  "write_proxy env proxiedFileLoc st =
     (case readFile proxiedFileLoc (files st) of
        None \<Rightarrow> (Some (ENOENT proxiedFileLoc), st)
      | Some proxiedCode \<Rightarrow>
          (let proxiedExt = extname proxiedFileLoc;
               proxiedUrl = drop (length (buildDirectoryLoc env)) proxiedFileLoc;
               proxyCode = wrapEsmProxyResponse env proxiedUrl proxiedCode proxiedExt
           in (None, writeFile (proxiedFileLoc @ ''.proxy.js'') proxyCode st)))"

definition write_proxies :: "env \<Rightarrow> run \<Rightarrow> error option \<times> run" where
  \<comment> \<open>lines 389 to 396. The command waits in each round, and the loop goes over the set
      as it is then: what an outstanding task adds is visited too.\<close>
  "write_proxies env r =
     (case allProxiedFiles (snd r) of
        None \<Rightarrow> (None, r)
      | Some [] \<Rightarrow> (None, r)
      | Some _ \<Rightarrow>
          (let st = wait env r
           in case seq_tasks (write_proxy env)
                     (case allProxiedFiles st of None \<Rightarrow> [] | Some ps \<Rightarrow> ps) st of
                (e, st') \<Rightarrow> (e, ([], st'))))"

definition copy_filter :: "state \<Rightarrow> string \<Rightarrow> bool" where
  \<comment> \<open>lines 418 to 420: \<^verbatim>\<open>true\<close> for what is copied\<close>
  "copy_filter st srcLoc = (\<not> (srcLoc \<in> set (allBuiltFromFiles st)))"

definition copy_build_to_final :: "env \<Rightarrow> state \<Rightarrow> state" where
  \<comment> \<open>line 417: the files below \<^verbatim>\<open>buildDirectoryLoc\<close> that the filter lets through\<close>
  "copy_build_to_final env st =
     fold (\<lambda>(p, n) st'.
            case n of
              Dir \<Rightarrow> st'
            | File c \<Rightarrow>
                if is_below (buildDirectoryLoc env) p \<and> copy_filter st p
                then writeFile (finalDirectoryLoc env @ drop (length (buildDirectoryLoc env)) p) c st'
                else st')
       (files st) st"

section \<open>The command\<close>

definition clean_directories :: "env \<Rightarrow> filesystem \<Rightarrow> filesystem" where
  \<comment> \<open>lines 83 to 88; the two names are compared as they are written\<close>
  "clean_directories env fs =
     (let fs1 = mkdirp (cwd env) (finalDirectoryLoc env) (rimraf (cwd env) (finalDirectoryLoc env) fs)
      in if finalDirectoryLoc env \<noteq> buildDirectoryLoc env
         then mkdirp (cwd env) (buildDirectoryLoc env) (rimraf (cwd env) (buildDirectoryLoc env) fs1)
         else fs1)"

definition lint_workers :: "env \<Rightarrow> (string \<times> string) list" where
  "lint_workers env = filter (\<lambda>(wid, cmd). startsWith ''lintall:'' wid) (relevantWorkers env)"

definition start_events :: "env \<Rightarrow> state \<Rightarrow> state" where
  \<comment> \<open>lines 126 to 137: what is emitted before the first directory is read\<close>
  "start_events env st =
     fold (\<lambda>(wid, cmd) st'. if startsWith ''lintall:'' wid then emit (WORKER_UPDATE wid [''RUNNING'', ''yellow'']) st' else st')
       (relevantWorkers env)
       (if \<not> isBundled env then emit (WORKER_UPDATE ''bundle:*'' [''SKIP'', ''dim'']) st else st)"

text \<open>
  The processes of the \<^verbatim>\<open>lintall:\<close> workers are started on line 138 and run beside the
  command, which waits for them on line 387 only. Here they end when the command gets
  there, or when it has ended before, in the order they were started in. What a
  process prints while it runs reaches the message bus in pieces (lines 152 to 175);
  these messages are not part of the model.
\<close>

definition lint_end :: "env \<Rightarrow> string \<times> string \<Rightarrow> state \<Rightarrow> state" where
  \<comment> \<open>lines 145 to 151: the process of one worker ends\<close>
  "lint_end env w st =
     (case w of
        (wid, cmd) \<Rightarrow>
          (case execa_command env cmd [] of
             Exit_failure msg \<Rightarrow>
               emit (WORKER_COMPLETE wid (Some (ExecaError msg)))
                 (emit (WORKER_MSG wid ''error'' (err_toString (ExecaError msg))) st)
           | Exit_ok stdout stderr \<Rightarrow> emit (WORKER_COMPLETE wid None) st))"

definition lint_settle :: "env \<Rightarrow> state \<Rightarrow> state" where
  "lint_settle env st = fold (lint_end env) (lint_workers env) st"

fun first_failure :: "exec_result list \<Rightarrow> error option" where
  "first_failure [] = None"
| "first_failure (Exit_failure msg # rs) = Some (ExecaError msg)"
| "first_failure (Exit_ok stdout stderr # rs) = first_failure rs"

definition lint_failure :: "env \<Rightarrow> error option" where
  \<comment> \<open>line 387: the error of the first process that failed, if any\<close>
  "lint_failure env = first_failure (map (\<lambda>(wid, cmd). execa_command env cmd []) (lint_workers env))"

definition initial_state :: "filesystem \<Rightarrow> state" where
  "initial_state fs = \<lparr>files = fs, events = [], allProxiedFiles = None, allBuiltFromFiles = []\<rparr>"

definition isBundledHardcoded :: "env \<Rightarrow> bool" where
  \<comment> \<open>line 43\<close>
  "isBundledHardcoded env = (devOptions_bundle env \<noteq> None)"

definition install_parcel_msg :: string where
  \<comment> \<open>the text of line 408\<close>
  "install_parcel_msg =
     ''npm install --save-dev parcel-bundler '' @ [CHR 0x0A, CHR 0x0A]
     @ ''Install Parcel into your project to bundle for production.'' @ [CHR 0x0A]
     @ ''Set '' @ [CHR 0x22] @ ''devOptions.bundle = false'' @ [CHR 0x22] @ '' to remove this message.''"

definition bundle_skipped :: "env \<Rightarrow> state \<Rightarrow> state" where
  \<comment> \<open>lines 399 to 410\<close>
  "bundle_skipped env st =
     (let st1 = emit (WORKER_UPDATE ''bundle:*'' [''SKIP'', if isBundledHardcoded env then ''dim'' else ''yellow''])
                  (emit (WORKER_COMPLETE ''bundle:*'' None) st)
      in if \<not> isBundledHardcoded env
         then emit (WORKER_MSG ''bundle:*'' ''log'' install_parcel_msg) st1
         else st1)"

definition build_run :: "env \<Rightarrow> state \<Rightarrow> error option \<times> state" where
  \<comment> \<open>lines 90 to 410, what follows the cleaning of the directories. The state that is
      returned is the one reached when the tasks and processes that the command has left
      running have ended too. For a bundled run the model ends where the work of the
      bundler starts (line 412); its first step is \<^const>\<open>copy_build_to_final\<close>.\<close>
  "build_run env st =
     (let st0 = start_events env st
      in case mountDirDetails env (relevantWorkers env) of
           Inl e \<Rightarrow> (Some e, lint_settle env st0)
         | Inr mounts \<Rightarrow>
             (case mount_pass env mounts st0 of
                (includeFileSets, pending, st1) \<Rightarrow>
                  (case worker_pass env includeFileSets (pending, st1) of
                     (Some e, r2) \<Rightarrow> (Some e, lint_settle env (wait env r2))
                   | (None, r2) \<Rightarrow>
                       (let r3 = (if lint_workers env = [] then r2
                                  else ([], lint_settle env (wait env r2)))
                        in case lint_failure env of
                             Some e \<Rightarrow> (Some e, wait env r3)
                           | None \<Rightarrow>
                               (case write_proxies env r3 of
                                  (Some e, r4) \<Rightarrow> (Some e, wait env r4)
                                | (None, r4) \<Rightarrow>
                                    (None,
                                     wait env
                                       (if \<not> isBundled env then on_state (bundle_skipped env) r4
                                        else r4)))))))"

definition command :: "env \<Rightarrow> filesystem \<Rightarrow> error option \<times> state" where
  \<comment> \<open>lines 25 to 88, then \<^const>\<open>build_run\<close>. The first component is the error that the
      promise of \<^verbatim>\<open>command\<close> is rejected with, if any. Without scripts the command prints
      two lines on the console and returns (lines 56 to 60).\<close>
  "command env fs =
     (if scripts env = [] then (None, initial_state fs)
      else
        (case mountedDirectories env (scripts env) of
           Inl e \<Rightarrow> (Some e, initial_state fs)
         | Inr _ \<Rightarrow> build_run env (initial_state (clean_directories env fs))))"

section \<open>Conditions on the inputs\<close>


text \<open>
  A directory name of letters and underscores, and an absolute path in normal form (no
  empty segment, no \<^verbatim>\<open>.\<close> and no \<^verbatim>\<open>..\<close>; not the root).
\<close>

definition is_letter :: "char \<Rightarrow> bool" where
  "is_letter c =
     (let n = (of_char c :: nat) in (65 \<le> n \<and> n \<le> 90) \<or> (97 \<le> n \<and> n \<le> 122) \<or> n = 95)"

definition is_name :: "string \<Rightarrow> bool" where
  "is_name n = (n \<noteq> [] \<and> list_all is_letter n)"

definition normal_abs :: "string \<Rightarrow> bool" where
  "normal_abs d =
     (case d of
        [] \<Rightarrow> False
      | c # cs \<Rightarrow>
          c = CHR ''/'' \<and> list_all (\<lambda>s. s \<noteq> [] \<and> s \<noteq> ''.'' \<and> s \<noteq> ''..'') (split_on CHR ''/'' cs))"


section \<open>An example project\<close>

text \<open>
  A project to run the command on: sources under \<^verbatim>\<open>/proj/src\<close>, output to \<^verbatim>\<open>/proj/build\<close>,
  no bundling. Its external process prints what it reads and fails on an empty input;
  its plugin fails on the file \<^verbatim>\<open>Broken.svelte\<close> and otherwise yields a script that
  imports an image.
\<close>

definition example_env :: env where
  "example_env =
     \<lparr>cwd = ''/proj'',
      scripts = [(''mount:src'', ''mount src --to _dist_'')],
      devOptions_out = ''/proj/build'',
      devOptions_bundle = Some False,
      has_parcel = False,
      excluded = (\<lambda>p. False),
      dependencyImportMap = Map.empty,
      srcFileExtensionMapping = [''ts'' \<mapsto> ''js'', ''svelte'' \<mapsto> ''js''],
      execa_command =
        (\<lambda>cmd input. if input = [] then Exit_failure ''Command failed with exit code 1''
                     else Exit_ok input []),
      plugin_build =
        [''svelte-plugin'' \<mapsto>
           (\<lambda>f. if f = ''/proj/src/Broken.svelte'' then Inl (ThrownError ''parse error'')
                else Inr [Code ''import logo from '', Spec ''./logo.svg''])],
      wrapEsmProxyResponse = (\<lambda>url code ext. Code ''export default '' # code)\<rparr>"

definition example_state :: state where
  \<comment> \<open>a state of the worker pass: both sets are there and empty\<close>
  "example_state = \<lparr>files = [], events = [], allProxiedFiles = Some [], allBuiltFromFiles = []\<rparr>"

section \<open>Properties of the import rewriter\<close>

lemma is_relative_not_http: "is_relative spec \<Longrightarrow> \<not> startsWith ''http'' spec"
  by (cases spec) (auto simp: is_relative_def startsWith_def)

text \<open>
  C9. A specifier that starts with \<^verbatim>\<open>/\<close>, \<^verbatim>\<open>./\<close> or \<^verbatim>\<open>../\<close> and has no extension
  (\<^verbatim>\<open>path.extname(spec).substr(1)\<close> is empty) is rewritten to the specifier followed by
  \<^verbatim>\<open>.js\<close>, in each of the three passes, for every output path and every state, and the
  state stays as it is: nothing is added to \<^verbatim>\<open>allProxiedFiles\<close>.
\<close>

theorem rewrite_without_extension:
  assumes "is_relative spec" and "substr1 (extname spec) = []"
  shows "rewriteImport p env outPath spec st = (Inr (spec @ ''.js''), st)"
  using assms by (simp add: rewriteImport_def is_relative_not_http)

theorem rewrite_without_extension_witness:
  "\<forall>p env outPath st.
     rewriteImport p env outPath ''./components/App'' st = (Inr ''./components/App.js'', st)
     \<and> rewriteImport p env outPath ''../lib/util'' st = (Inr ''../lib/util.js'', st)
     \<and> rewriteImport p env outPath ''/_dist_/index'' st = (Inr ''/_dist_/index.js'', st)"
proof -
  have a: "is_relative ''./components/App''" "substr1 (extname ''./components/App'') = []"
    by (simp_all add: is_relative_def startsWith_def substr1_def extname_def last_part_def)
  have b: "is_relative ''../lib/util''" "substr1 (extname ''../lib/util'') = []"
    by (simp_all add: is_relative_def startsWith_def substr1_def extname_def last_part_def)
  have c: "is_relative ''/_dist_/index''" "substr1 (extname ''/_dist_/index'') = []"
    by (simp_all add: is_relative_def startsWith_def substr1_def extname_def last_part_def)
  show ?thesis
    using rewrite_without_extension [OF a] rewrite_without_extension [OF b]
      rewrite_without_extension [OF c]
    by simp
qed

subsection \<open>Missing dependencies\<close>









subsection \<open>Remapped extensions and rewriting twice\<close>

lemma takeWhile_rev_app:
  "c \<notin> set t \<Longrightarrow> takeWhile (\<lambda>x. x \<noteq> c) (rev t @ ys) = rev t @ takeWhile (\<lambda>x. x \<noteq> c) ys"
  by (rule takeWhile_append2) auto

lemma takeWhile_rev_all:
  "c \<notin> set t \<Longrightarrow> takeWhile (\<lambda>x. x \<noteq> c) (rev t) = rev t"
  using takeWhile_rev_app [of c t "[]"] by simp








lemma startsWith_append: "startsWith p s \<Longrightarrow> startsWith p (s @ t)"
proof -
  assume a: "startsWith p s"
  then have "length (take (length p) s) = length p" by (simp add: startsWith_def)
  then have "length p \<le> length s" by simp
  with a show ?thesis by (simp add: startsWith_def)
qed

lemma is_relative_append: "is_relative s \<Longrightarrow> is_relative (s @ t)"
  by (auto simp: is_relative_def startsWith_append)









section \<open>Properties of paths and of the file system\<close>

lemma is_name_chars:
  assumes "is_name n" "c \<in> set n"
  shows "c \<noteq> CHR ''/''" "c \<noteq> CHR ''.''" "c \<noteq> CHR ''-''" "\<not> is_space c" "c \<notin> set ''0123456789''"
proof -
  from assms have l: "is_letter c" by (simp add: is_name_def list_all_iff)
  show "c \<noteq> CHR ''/''" "c \<noteq> CHR ''.''" "c \<noteq> CHR ''-''" "\<not> is_space c" "c \<notin> set ''0123456789''"
    using l by (auto simp: is_letter_def is_space_def)
qed


lemma split_on_nonempty: "split_on c s \<noteq> []"
  by (induction s) (auto split: list.splits)

lemma split_on_none: "c \<notin> set s \<Longrightarrow> split_on c s = [s]"
  by (induction s) auto

lemma split_on_append: "split_on c (a @ c # b) = split_on c a @ split_on c b"
  by (induction a) (auto split: list.splits simp: split_on_nonempty)


lemma join_split: "join_with [c] (split_on c s) = s"
proof (induction s)
  case Nil then show ?case by simp
next
  case (Cons x xs)
  then show ?case
    by (cases "split_on c xs"; cases "tl (split_on c xs)") (auto simp: split_on_nonempty)
qed

lemma join_snoc: "xs \<noteq> [] \<Longrightarrow> join_with sep (xs @ [x]) = join_with sep xs @ sep @ x"
  by (induction sep xs rule: join_with.induct) auto




lemma normalize_segs_kept:
  "list_all (\<lambda>s. s \<noteq> [] \<and> s \<noteq> ''.'' \<and> s \<noteq> ''..'') xs \<Longrightarrow>
   normalize_segs acc (xs @ ys) = normalize_segs (rev xs @ acc) ys"
  by (induction xs arbitrary: acc) auto






lemma resolve_under:
  assumes "normal_abs d" "is_name n"
  shows "CHR ''/'' # join_with ''/'' (normalize_segs [] (split_on CHR ''/'' (d @ ''/'' @ n @ ''/''))) = d @ ''/'' @ n"
proof -
  from assms(1) obtain cs where d: "d = CHR ''/'' # cs"
    and ok: "list_all (\<lambda>s. s \<noteq> [] \<and> s \<noteq> ''.'' \<and> s \<noteq> ''..'') (split_on CHR ''/'' cs)"
    by (auto simp: normal_abs_def split: list.splits)
  have n: "CHR ''/'' \<notin> set n" "n \<noteq> []" "n \<noteq> ''.''" "n \<noteq> ''..''"
    using assms(2) is_name_chars(1,2) [OF assms(2)] by (auto simp: is_name_def)
  have "split_on CHR ''/'' (d @ ''/'' @ n @ ''/'') = [] # split_on CHR ''/'' cs @ [n, []]"
    using n(1) by (simp add: d split_on_append split_on_none)
  then have "normalize_segs [] (split_on CHR ''/'' (d @ ''/'' @ n @ ''/''))
             = normalize_segs [] (split_on CHR ''/'' cs @ [n, []])" by simp
  also have "\<dots> = split_on CHR ''/'' cs @ [n]"
    using n by (simp add: normalize_segs_kept [OF ok])
  finally show ?thesis
    by (simp add: join_snoc split_on_nonempty join_split d)
qed

lemma name_not_absolute: "is_name n \<Longrightarrow> \<not> startsWith ''/'' (n @ ''/'')"
  using is_name_chars(1) [of n] by (cases n) (auto simp: startsWith_def is_name_def)

lemma path_resolve_name:
  assumes "normal_abs c" "is_name n"
  shows "path_resolve c [n] = c @ ''/'' @ n"
proof -
  have "n \<noteq> []" "c \<noteq> []" using assms by (auto simp: is_name_def normal_abs_def)
  then have "resolve_join [c, n] = c @ ''/'' @ n @ ''/''"
    using name_not_absolute [OF assms(2)] by (simp add: startsWith_def)
  then show ?thesis using resolve_under [OF assms] by (simp add: path_resolve_def)
qed

lemma path_resolve_under:
  assumes "normal_abs d" "is_name n"
  shows "path_resolve c [d, n] = d @ ''/'' @ n"
proof -
  have "n \<noteq> []" "startsWith ''/'' (d @ ''/'' @ n @ ''/'')" using assms
    by (auto simp: is_name_def normal_abs_def startsWith_def split: list.splits)
  then have "resolve_join [c, d, n] = d @ ''/'' @ n @ ''/''"
    using assms(1) name_not_absolute [OF assms(2)] by (auto simp: Let_def normal_abs_def startsWith_def)
  then show ?thesis using resolve_under [OF assms] by (simp add: path_resolve_def)
qed

lemma split_ws_from_last: "list_all (\<lambda>c. \<not> is_space c) t \<Longrightarrow> split_ws_from b t = [t]"
  by (induction t arbitrary: b) auto

lemma split_ws_from_token:
  "t \<noteq> [] \<Longrightarrow> list_all (\<lambda>c. \<not> is_space c) t \<Longrightarrow>
   split_ws_from b (t @ CHR '' '' # rest) = t # split_ws_from True rest"
proof (induction t arbitrary: b)
  case Nil then show ?case by simp
next
  case (Cons x t)
  then show ?case by (cases "t = []") (auto simp: is_space_def)
qed

lemma is_name_no_space: "is_name n \<Longrightarrow> list_all (\<lambda>c. \<not> is_space c) n"
  using is_name_chars(4) [of n] by (simp add: list_all_iff)

lemma split_ws_mount_to:
  assumes "is_name src" "is_name dest"
  shows "split_ws (''mount '' @ src @ '' --to '' @ dest) = [''mount'', src, ''--to'', dest]"
proof -
  have a: "''mount '' @ src @ '' --to '' @ dest
           = ''mount'' @ CHR '' '' # (src @ CHR '' '' # (''--to'' @ CHR '' '' # dest))" by simp
  have s: "src \<noteq> []" using assms(1) by (simp add: is_name_def)
  have "split_ws_from False (''mount'' @ CHR '' '' # (src @ CHR '' '' # (''--to'' @ CHR '' '' # dest)))
        = ''mount'' # split_ws_from True (src @ CHR '' '' # (''--to'' @ CHR '' '' # dest))"
    by (rule split_ws_from_token) (simp_all add: is_space_def)
  also have "split_ws_from True (src @ CHR '' '' # (''--to'' @ CHR '' '' # dest))
             = src # split_ws_from True (''--to'' @ CHR '' '' # dest)"
    by (rule split_ws_from_token [OF s is_name_no_space [OF assms(1)]])
  also have "split_ws_from True (''--to'' @ CHR '' '' # dest) = ''--to'' # split_ws_from True dest"
    by (rule split_ws_from_token) (simp_all add: is_space_def)
  also have "split_ws_from True dest = [dest]"
    by (rule split_ws_from_last [OF is_name_no_space [OF assms(2)]])
  finally show ?thesis by (simp only: split_ws_def a)
qed

lemma split_ws_mount:
  assumes "is_name src"
  shows "split_ws (''mount '' @ src) = [''mount'', src]"
proof -
  have a: "''mount '' @ src = ''mount'' @ CHR '' '' # src" by simp
  show ?thesis
    unfolding split_ws_def a
    by (simp add: split_ws_from_token [of "''mount''"] split_ws_from_last [OF is_name_no_space [OF assms]] is_space_def)
qed


lemma letters_not_mantissa: "list_all is_letter m \<Longrightarrow> \<not> mantissa m"
proof (cases m)
  case Nil
  then show ?thesis by (simp add: mantissa_def)
next
  case (Cons c cs)
  assume "list_all is_letter m"
  with Cons have l: "is_letter c" by simp
  then have "\<not> is_digit c" "c \<noteq> CHR ''.''" by (auto simp: is_letter_def is_digit_def)
  with Cons show ?thesis by (simp add: mantissa_def)
qed

lemma name_not_number:
  assumes "is_name n"
  shows "\<not> looksLikeNumber n"
proof -
  from assms obtain c cs where n: "n = c # cs" and l: "is_letter c" "list_all is_letter cs"
    by (cases n) (auto simp: is_name_def)
  from l(1) have c: "c \<noteq> CHR ''0''" "c \<noteq> CHR ''-''" by (auto simp: is_letter_def)
  have "list_all is_letter (takeWhile (\<lambda>c. c \<noteq> CHR ''e'') n)"
    using l n by (auto simp: list_all_iff dest: set_takeWhileD)
  then have "\<not> mantissa (takeWhile (\<lambda>c. c \<noteq> CHR ''e'') n)" by (rule letters_not_mantissa)
  then have "\<not> decimal_numeral n" using c n by (simp add: decimal_numeral_def)
  moreover have "\<not> hex_numeral n" using c n by (simp add: hex_numeral_def split: list.splits)
  ultimately show ?thesis by (simp add: looksLikeNumber_def)
qed

lemma yargs_to_dest:
  assumes "is_name src" "is_name dest"
  shows "yargs_to YUndefined [src, ''--to'', dest] = YString dest"
proof -
  have s: "src \<noteq> ''--to''" "src \<noteq> ''--no-to''" "\<not> startsWith ''--to='' src"
    using is_name_chars(3) [OF assms(1)] assms(1) by (cases src; auto simp: startsWith_def is_name_def)+
  have d: "\<not> startsWith ''-'' dest"
    using is_name_chars(3) [OF assms(2)] assms(2)
    by (cases dest; auto simp: startsWith_def is_name_def)
  show ?thesis using s d name_not_number [OF assms(2)] by (simp add: yargs_set_def yargs_value_def)
qed

lemma mounted_bad_token:
  assumes "(wid, cmd) \<in> set ws" "startsWith ''mount:'' wid" "\<And>ts. split_ws cmd \<noteq> ''mount'' # ts"
  shows "\<exists>e. mountedDirectories env ws = Inl e"
  using assms(1)
proof (induction ws)
  case Nil then show ?case by simp
next
  case (Cons w ws)
  obtain wid' cmd' where w: "w = (wid', cmd')" by (cases w)
  show ?case
  proof (cases "w = (wid, cmd)")
    case True
    with assms(2,3) w show ?thesis by (auto split: list.splits)
  next
    case False
    with Cons obtain e where "mountedDirectories env ws = Inl e" by auto
    then show ?thesis using w by (auto split: list.splits sum.splits simp: Let_def)
  qed
qed

lemma mountDirDetails_single:
  assumes "startsWith ''mount:'' wid" "split_ws cmd = ''mount'' # d # others"
    and "(if others = [] then YString d else yargs_to YUndefined (d # others)) = YString to"
  shows "mountDirDetails env [(wid, cmd)]
           = Inr [(wid, path_resolve (cwd env) [d], path_resolve (cwd env) [buildDirectoryLoc env, to])]"
  using assms by (simp del: yargs_to.simps)





















section \<open>Mount commands\<close>

text \<open>
  C8. A mount script (an id that starts with \<^verbatim>\<open>mount:\<close>), names \<open>src\<close> and \<open>dest\<close> of letters,
  the working directory and the build directory absolute and in normal form. The
  command \<^verbatim>\<open>mount src --to dest\<close> gives the source directory \<open>src\<close> under the working
  directory and the destination \<open>dest\<close> under the build directory; \<^verbatim>\<open>mount src\<close> gives the
  destination \<open>src\<close> under the build directory. And when the tokens of the command of a
  registered mount script do not start with \<^verbatim>\<open>mount\<close>, the command ends with an error
  before anything is cleaned, read or written.
\<close>

theorem mount_command_parsed:
  assumes "startsWith ''mount:'' wid" and "is_name src" and "is_name dest"
    and "normal_abs (cwd env)" and "normal_abs (buildDirectoryLoc env)"
  shows "mountDirDetails env [(wid, ''mount '' @ src @ '' --to '' @ dest)]
           = Inr [(wid, cwd env @ ''/'' @ src, buildDirectoryLoc env @ ''/'' @ dest)]
         \<and> mountDirDetails env [(wid, ''mount '' @ src)]
           = Inr [(wid, cwd env @ ''/'' @ src, buildDirectoryLoc env @ ''/'' @ src)]
         \<and> (\<forall>cmd fs. (wid, cmd) \<in> set (scripts env) \<and> (\<forall>ts. split_ws cmd \<noteq> ''mount'' # ts)
               \<longrightarrow> (\<exists>e. command env fs = (Some e, initial_state fs)))"
proof (intro conjI allI impI)
  have "(if [''--to'', dest] = [] then YString src else yargs_to YUndefined [src, ''--to'', dest])
        = YString dest"
    by (simp only: yargs_to_dest [OF assms(2,3)]) simp
  from mountDirDetails_single [OF assms(1) split_ws_mount_to [OF assms(2,3)] this]
  show "mountDirDetails env [(wid, ''mount '' @ src @ '' --to '' @ dest)]
           = Inr [(wid, cwd env @ ''/'' @ src, buildDirectoryLoc env @ ''/'' @ dest)]"
    by (simp only: path_resolve_name [OF assms(4,2)] path_resolve_under [OF assms(5,3)])
  have "(if [] = [] then YString src else yargs_to YUndefined [src]) = YString src" by simp
  from mountDirDetails_single [OF assms(1) split_ws_mount [OF assms(2)] this]
  show "mountDirDetails env [(wid, ''mount '' @ src)]
           = Inr [(wid, cwd env @ ''/'' @ src, buildDirectoryLoc env @ ''/'' @ src)]"
    by (simp only: path_resolve_name [OF assms(4,2)] path_resolve_under [OF assms(5,2)])
next
  fix cmd fs
  assume a: "(wid, cmd) \<in> set (scripts env) \<and> (\<forall>ts. split_ws cmd \<noteq> ''mount'' # ts)"
  then obtain e where "mountedDirectories env (scripts env) = Inl e"
    using mounted_bad_token [of wid cmd "scripts env" env] assms(1) by blast
  moreover from a have "scripts env \<noteq> []" by auto
  ultimately show "\<exists>e. command env fs = (Some e, initial_state fs)"
    by (simp add: command_def)
qed

theorem mount_command_parsed_witness:
  "mountDirDetails (example_env\<lparr>scripts := [(''mount:src'', ''cp -r src dest'')]\<rparr>)
       [(''mount:src'', ''mount src --to dest'')]
     = Inr [(''mount:src'', ''/proj/src'', ''/proj/build/dest'')]
   \<and> mountDirDetails (example_env\<lparr>scripts := [(''mount:src'', ''cp -r src dest'')]\<rparr>)
       [(''mount:src'', ''mount src'')]
     = Inr [(''mount:src'', ''/proj/src'', ''/proj/build/src'')]
   \<and> (\<exists>e. command (example_env\<lparr>scripts := [(''mount:src'', ''cp -r src dest'')]\<rparr>)
               [(''/proj/build/stale.js'', File [])]
             = (Some e, initial_state [(''/proj/build/stale.js'', File [])]))"
proof -
  let ?env = "example_env\<lparr>scripts := [(''mount:src'', ''cp -r src dest'')]\<rparr>"
  have a: "startsWith ''mount:'' ''mount:src''" by code_simp
  have b: "is_name ''src''" by code_simp
  have c: "is_name ''dest''" by code_simp
  have d: "normal_abs (cwd ?env)" by code_simp
  have e: "normal_abs (buildDirectoryLoc ?env)" by code_simp
  have f: "(''mount:src'', ''cp -r src dest'') \<in> set (scripts ?env)" by code_simp
  have g: "\<forall>ts. split_ws ''cp -r src dest'' \<noteq> ''mount'' # ts"
  proof -
    have "split_ws ''cp -r src dest'' = [''cp'', ''-r'', ''src'', ''dest'']" by code_simp
    then show ?thesis by simp
  qed
  have h: "cwd ?env = ''/proj''" by code_simp
  have i: "buildDirectoryLoc ?env = ''/proj/build''" by code_simp
  from mount_command_parsed [OF a b c d e] f g show ?thesis
    unfolding h i by (simp only: append.simps)
qed


section \<open>Cleaning the directories\<close>




section \<open>Runs of the command on the example project\<close>

text \<open>
  C1. A worker that fails on one file: the failure is reported under the id of the
  worker, the output of that file is not written, and the run goes on. The plugin
  worker does so (lines 336 to 343). The build worker does not: line 281 awaits the
  process outside any \<^verbatim>\<open>try\<close>, so a process that exits with a failure rejects the
  promise of \<^verbatim>\<open>command\<close>. Here \<^verbatim>\<open>build:ts\<close> fails on \<^verbatim>\<open>a.ts\<close>: the run ends with that
  error, no event reports it, and neither \<^verbatim>\<open>b.ts\<close> nor \<^verbatim>\<open>App.svelte\<close> is built.
\<close>

theorem build_worker_failure_ends_run:
  "command
     (example_env\<lparr>scripts :=
        [(''mount:src'', ''mount src --to _dist_''),
         (''build:ts'', ''tsc-one $FILE''),
         (''plugin:svelte'', ''svelte-plugin'')]\<rparr>)
     [(''/proj/src/a.ts'', File []),
      (''/proj/src/b.ts'', File [Code ''let b'']),
      (''/proj/src/App.svelte'', File [Code ''<p/>''])]
   = (Some (ExecaError ''Command failed with exit code 1''),
      \<lparr>files =
         [(''/proj/src/a.ts'', File []),
          (''/proj/src/b.ts'', File [Code ''let b'']),
          (''/proj/src/App.svelte'', File [Code ''<p/>'']),
          (''/proj'', Dir),
          (''/proj/build'', Dir)],
       events =
         [WORKER_UPDATE ''bundle:*'' [''SKIP'', ''dim''],
          WORKER_UPDATE ''mount:src'' [''RUNNING'', ''yellow''],
          WORKER_COMPLETE ''mount:src'' None,
          WORKER_UPDATE ''build:ts'' [''RUNNING'', ''yellow'']],
       allProxiedFiles = Some [],
       allBuiltFromFiles = []\<rparr>)"
  by code_simp

text \<open>
  C2. With bundling on, no pass records a proxy request or appends \<^verbatim>\<open>.proxy.js\<close>. The
  callbacks of lines 240 and 315 test \<^verbatim>\<open>!isBundled\<close>; the callback for the output of a
  plugin (line 365) does not. In a bundled build the import of an image in the output
  of a plugin is recorded and gets the suffix.
\<close>

theorem plugin_pass_proxies_when_bundled:
  "isBundled (example_env\<lparr>devOptions_bundle := Some True\<rparr>)
   \<and> rewriteImport PluginPass (example_env\<lparr>devOptions_bundle := Some True\<rparr>)
         ''/proj/.build/_dist_/App.js'' ''./logo.svg'' example_state
       = (Inr ''./logo.svg.proxy.js'',
          example_state\<lparr>allProxiedFiles := Some [''/proj/.build/_dist_/logo.svg'']\<rparr>)"
  by code_simp

text \<open>
  C3. With bundling off, recording the proxy requests never fails the task of a file.
  In the pass over a mounted directory it does: line 242 reads \<^verbatim>\<open>allProxiedFiles\<close>, which
  line 265 declares after that pass. A script of a mounted directory that imports a
  style sheet makes its task throw; the script is not written, the directory is
  reported as failed, and its files are not handed to any worker.
\<close>

theorem mount_pass_proxy_request_throws:
  "command example_env
     [(''/proj/src/index.js'', File [Code ''import '', Spec ''./style.css'']),
      (''/proj/src/style.css'', File [Code ''body {}''])]
   = (None,
      \<lparr>files =
         [(''/proj/src/index.js'', File [Code ''import '', Spec ''./style.css'']),
          (''/proj/src/style.css'', File [Code ''body {}'']),
          (''/proj'', Dir),
          (''/proj/build'', Dir),
          (''/proj/build/_dist_'', Dir),
          (''/proj/build/_dist_/style.css'', File [Code ''body {}''])],
       events =
         [WORKER_UPDATE ''bundle:*'' [''SKIP'', ''dim''],
          WORKER_UPDATE ''mount:src'' [''RUNNING'', ''yellow''],
          WORKER_MSG ''mount:src'' ''error'' ''ReferenceError: allProxiedFiles'',
          WORKER_COMPLETE ''mount:src'' (Some (ReferenceError ''allProxiedFiles'')),
          WORKER_COMPLETE ''bundle:*'' None,
          WORKER_UPDATE ''bundle:*'' [''SKIP'', ''dim'']],
       allProxiedFiles = Some [],
       allBuiltFromFiles = []\<rparr>)"
  by code_simp

text \<open>
  C5. Every source path that a build worker or a plugin worker has transformed is in
  \<^verbatim>\<open>allBuiltFromFiles\<close> when the copy for the bundler runs. Line 331 adds the path for a
  build worker; the branch of the plugin worker (lines 333 to 381) adds nothing. After a
  bundled run in which both workers have written their output, the set holds the
  source of the build worker only, and the filter of the copy lets the source of the
  plugin worker through.
\<close>

theorem plugin_output_not_recorded_as_built:
  "command
     (example_env\<lparr>devOptions_bundle := Some True,
        scripts :=
          [(''mount:src'', ''mount src --to _dist_''),
           (''plugin:svelte'', ''svelte-plugin''),
           (''build:ts'', ''tsc-one $FILE'')]\<rparr>)
     [(''/proj/src/b.ts'', File [Code ''let b'']),
      (''/proj/src/App.svelte'', File [Code ''<p/>'']),
      (''/proj/src/logo.svg'', File [Code ''<svg/>''])]
   = (None,
      \<lparr>files =
         [(''/proj/src/b.ts'', File [Code ''let b'']),
          (''/proj/src/App.svelte'', File [Code ''<p/>'']),
          (''/proj/src/logo.svg'', File [Code ''<svg/>'']),
          (''/proj'', Dir),
          (''/proj/build'', Dir),
          (''/proj/.build'', Dir),
          (''/proj/.build/_dist_'', Dir),
          (''/proj/.build/_dist_/logo.svg'', File [Code ''<svg/>'']),
          (''/proj/.build/_dist_/App.js'',
           File [Code ''import logo from '', Spec ''./logo.svg.proxy.js'']),
          (''/proj/.build/_dist_/b.js'', File [Code ''let b'']),
          (''/proj/.build/_dist_/logo.svg.proxy.js'',
           File [Code ''export default '', Code ''<svg/>''])],
       events =
         [WORKER_UPDATE ''mount:src'' [''RUNNING'', ''yellow''],
          WORKER_COMPLETE ''mount:src'' None,
          WORKER_UPDATE ''plugin:svelte'' [''RUNNING'', ''yellow''],
          WORKER_COMPLETE ''plugin:svelte'' None,
          WORKER_UPDATE ''build:ts'' [''RUNNING'', ''yellow''],
          WORKER_COMPLETE ''build:ts'' None],
       allProxiedFiles = Some [''/proj/.build/_dist_/logo.svg''],
       allBuiltFromFiles = [''/proj/src/b.ts'']\<rparr>)
   \<and> copy_filter
         \<lparr>files = [], events = [], allProxiedFiles = Some [''/proj/.build/_dist_/logo.svg''],
            allBuiltFromFiles = [''/proj/src/b.ts'']\<rparr>
         ''/proj/src/App.svelte''"
  by code_simp

text \<open>
  C6. A file is handed to a worker exactly if its extension is one of the extensions
  in the id of the worker. Line 274 looks for the extension after a colon or a comma
  anywhere in the id, so an extension that starts a longer one matches as well: the
  worker \<^verbatim>\<open>build:tsx\<close> declares \<^verbatim>\<open>tsx\<close> only and is run on \<^verbatim>\<open>a.ts\<close>. The external process
  of this run reports its command line on \<^verbatim>\<open>stderr\<close>, which shows as a \<^verbatim>\<open>CONSOLE\<close> event.
\<close>

theorem file_handed_to_worker_of_longer_extension:
  "worker_exts ''build:tsx'' = [''tsx'']
   \<and> worker_matches ''build:tsx'' ''/proj/src/a.ts''
   \<and> events (snd (command
         (example_env\<lparr>scripts :=
            [(''mount:src'', ''mount src --to _dist_''),
             (''build:ts'', ''tsc-one $FILE''),
             (''build:tsx'', ''tsx-one $FILE'')],
            execa_command := (\<lambda>cmd input. Exit_ok input cmd)\<rparr>)
         [(''/proj/src/a.ts'', File [Code ''let a''])]))
       = [WORKER_UPDATE ''bundle:*'' [''SKIP'', ''dim''],
          WORKER_UPDATE ''mount:src'' [''RUNNING'', ''yellow''],
          WORKER_COMPLETE ''mount:src'' None,
          WORKER_UPDATE ''build:ts'' [''RUNNING'', ''yellow''],
          CONSOLE ''error'' ''tsc-one /proj/src/a.ts'',
          WORKER_COMPLETE ''build:ts'' None,
          WORKER_UPDATE ''build:tsx'' [''RUNNING'', ''yellow''],
          CONSOLE ''error'' ''tsx-one /proj/src/a.ts'',
          WORKER_COMPLETE ''build:tsx'' None,
          WORKER_COMPLETE ''bundle:*'' None,
          WORKER_UPDATE ''bundle:*'' [''SKIP'', ''dim'']]"
  by code_simp

end
